theory Spec2Isabelle
  imports Main
begin

section \<open>The recipe routes\<close>

text \<open>
  The router (routes/Recipe.js) maps five HTTP routes onto five calls of the Mongoose
  model \<open>Recipe\<close>. Each handler awaits exactly one call of the model inside a
  \<open>try\<close> block and turns its outcome into a status and a JSON body.
\<close>

subsection \<open>Requests and responses\<close>

text \<open>
  \<open>req.params.id\<close> is the path segment matched by \<open>:id\<close>. \<open>req.body\<close> is the object
  \<open>express.json()\<close> parsed (server.js installs it before the router): a map from
  keys to JSON values, in which reading a key that is not there gives \<open>undefined\<close>,
  here \<open>None\<close>. A JSON array as body has none of the four keys the handlers read, so
  it is the map with those keys absent. The handlers never look inside a value, so its
  type is a parameter. Sending a response is taken not to throw.
\<close>

record 'v request =
  param_id :: string
  req_body :: "string \<rightharpoonup> 'v"

text \<open>
  The object literal \<open>{ title, ingredients, instructions, image }\<close> that the create and
  the update handler hand to the model: always these four keys, each holding what the
  body had under that key, or \<open>undefined\<close>.
\<close>

record 'v fields =
  title :: "'v option"
  ingredients :: "'v option"
  instructions :: "'v option"
  image :: "'v option"

text \<open>
  The JSON bodies the handlers send: \<open>{ error: msg }\<close>, \<open>{ message: msg }\<close>, one
  document, an array of documents, and \<open>{ message: msg, recipe }\<close>.
\<close>

datatype 'd json =
    Error_json string
  | Message_json string
  | Recipe_json 'd
  | Recipes_json "'d list"
  | Created_json string 'd

record 'd response =
  status :: nat
  payload :: "'d json"

subsection \<open>The model the handlers call\<close>

text \<open>
  \<open>require('../models/Recipe')\<close> is the collaborator. The handlers use five of its
  operations; each is awaited, so it either resolves to a value or rejects, and it may
  change the database either way. The handlers' \<open>catch\<close> clauses never inspect the
  error. The update is always called with the option \<open>{ new: true }\<close>, which asks for
  the document as it is after the update; \<open>Recipe_findByIdAndUpdate\<close> stands for the
  call with that option. A document is truthy and \<open>null\<close> is not, so the test
  \<open>!recipe\<close> is the test for \<open>None\<close>.
\<close>

datatype store_error = ValidationError | MalformedId | StoreFailure

record ('s, 'v, 'd) model =
  Recipe_find :: "'s \<Rightarrow> (store_error + 'd list) \<times> 's"
  Recipe_findById :: "string \<Rightarrow> 's \<Rightarrow> (store_error + 'd option) \<times> 's"
  Recipe_create :: "'v fields \<Rightarrow> 's \<Rightarrow> (store_error + 'd) \<times> 's"
  Recipe_findByIdAndUpdate :: "string \<Rightarrow> 'v fields \<Rightarrow> 's \<Rightarrow> (store_error + 'd option) \<times> 's"
  Recipe_findByIdAndDelete :: "string \<Rightarrow> 's \<Rightarrow> (store_error + 'd option) \<times> 's"

subsection \<open>The five handlers\<close>

text \<open>\<open>router.get('/recipes', ...)\<close>\<close>

definition get_recipes ::
  "('s, 'v, 'd) model \<Rightarrow> 'v request \<Rightarrow> 's \<Rightarrow> 'd response \<times> 's" where
  "get_recipes M req s =
     (case Recipe_find M s of
        (Inr recipes, s') \<Rightarrow> (\<lparr>status = 200, payload = Recipes_json recipes\<rparr>, s')
      | (Inl err, s') \<Rightarrow>
          (\<lparr>status = 500, payload = Error_json ''Internal Server Error''\<rparr>, s'))"

text \<open>\<open>router.get('/recipes/:id', ...)\<close>\<close>

definition get_recipe ::
  "('s, 'v, 'd) model \<Rightarrow> 'v request \<Rightarrow> 's \<Rightarrow> 'd response \<times> 's" where
  "get_recipe M req s =
     (case Recipe_findById M (param_id req) s of
        (Inr None, s') \<Rightarrow> (\<lparr>status = 404, payload = Error_json ''Recipe not found''\<rparr>, s')
      | (Inr (Some recipe), s') \<Rightarrow> (\<lparr>status = 200, payload = Recipe_json recipe\<rparr>, s')
      | (Inl err, s') \<Rightarrow>
          (\<lparr>status = 500, payload = Error_json ''Internal Server Error''\<rparr>, s'))"

text \<open>
  The destructuring \<open>const { title, ingredients, instructions, image } = req.body\<close>
  followed by the object literal built from the four variables.
\<close>

definition body_fields :: "'v request \<Rightarrow> 'v fields" where
  "body_fields req =
     \<lparr>title = req_body req ''title'',
      ingredients = req_body req ''ingredients'',
      instructions = req_body req ''instructions'',
      image = req_body req ''image''\<rparr>"

text \<open>\<open>router.post('/recipes', ...)\<close>\<close>

definition post_recipes ::
  "('s, 'v, 'd) model \<Rightarrow> 'v request \<Rightarrow> 's \<Rightarrow> 'd response \<times> 's" where
  "post_recipes M req s =
     (case Recipe_create M (body_fields req) s of
        (Inr recipe, s') \<Rightarrow>
          (\<lparr>status = 201, payload = Created_json ''Recipe Created'' recipe\<rparr>, s')
      | (Inl err, s') \<Rightarrow> (\<lparr>status = 400, payload = Error_json ''Invalid data''\<rparr>, s'))"

text \<open>\<open>router.put('/recipes/:id', ...)\<close>\<close>

definition put_recipe ::
  "('s, 'v, 'd) model \<Rightarrow> 'v request \<Rightarrow> 's \<Rightarrow> 'd response \<times> 's" where
  "put_recipe M req s =
     (case Recipe_findByIdAndUpdate M (param_id req) (body_fields req) s of
        (Inr None, s') \<Rightarrow> (\<lparr>status = 404, payload = Error_json ''Recipe not found''\<rparr>, s')
      | (Inr (Some recipe), s') \<Rightarrow> (\<lparr>status = 200, payload = Recipe_json recipe\<rparr>, s')
      | (Inl err, s') \<Rightarrow>
          (\<lparr>status = 500, payload = Error_json ''Internal Server Error''\<rparr>, s'))"

text \<open>\<open>router.delete('/recipes/:id', ...)\<close>\<close>

definition delete_recipe ::
  "('s, 'v, 'd) model \<Rightarrow> 'v request \<Rightarrow> 's \<Rightarrow> 'd response \<times> 's" where
  "delete_recipe M req s =
     (case Recipe_findByIdAndDelete M (param_id req) s of
        (Inr None, s') \<Rightarrow> (\<lparr>status = 404, payload = Error_json ''Recipe not found''\<rparr>, s')
      | (Inr (Some recipe), s') \<Rightarrow> (\<lparr>status = 200, payload = Message_json ''Recipe deleted''\<rparr>, s')
      | (Inl err, s') \<Rightarrow>
          (\<lparr>status = 500, payload = Error_json ''Internal Server Error''\<rparr>, s'))"

subsection \<open>A journal of the calls a handler makes\<close>

text \<open>
  To speak about which calls of the model a handler issues, and how often, any model
  can be run with a journal: \<open>journalled M\<close> answers exactly as \<open>M\<close> does and appends
  each call it receives, with its arguments, to a list kept beside \<open>M\<close>'s state.
\<close>

datatype 'v store_call =
    Find
  | FindById string
  | Create "'v fields"
  | FindByIdAndUpdate string "'v fields"
  | FindByIdAndDelete string

definition noted ::
  "'v store_call \<Rightarrow> ('s \<Rightarrow> 'a \<times> 's) \<Rightarrow> 's \<times> 'v store_call list \<Rightarrow> 'a \<times> 's \<times> 'v store_call list" where
  "noted c f = (\<lambda>(s, calls). case f s of (r, s') \<Rightarrow> (r, (s', calls @ [c])))"

definition journalled ::
  "('s, 'v, 'd) model \<Rightarrow> ('s \<times> 'v store_call list, 'v, 'd) model" where
  "journalled M =
     \<lparr>Recipe_find = noted Find (Recipe_find M),
      Recipe_findById = (\<lambda>i. noted (FindById i) (Recipe_findById M i)),
      Recipe_create = (\<lambda>f. noted (Create f) (Recipe_create M f)),
      Recipe_findByIdAndUpdate =
        (\<lambda>i f. noted (FindByIdAndUpdate i f) (Recipe_findByIdAndUpdate M i f)),
      Recipe_findByIdAndDelete =
        (\<lambda>i. noted (FindByIdAndDelete i) (Recipe_findByIdAndDelete M i))\<rparr>"

text \<open>The calls a handler made, started on an empty journal.\<close>

definition calls_of ::
  "(('s \<times> 'v store_call list, 'v, 'd) model \<Rightarrow> 'v request \<Rightarrow> 's \<times> 'v store_call list
      \<Rightarrow> 'd response \<times> 's \<times> 'v store_call list)
    \<Rightarrow> ('s, 'v, 'd) model \<Rightarrow> 'v request \<Rightarrow> 's \<Rightarrow> 'v store_call list" where
  "calls_of handler M req s = snd (snd (handler (journalled M) req (s, [])))"

text \<open>A model whose every call is rejected, as when the database cannot be reached.\<close>

definition unreachable :: "(unit, 'v, 'd) model" where
  "unreachable =
     \<lparr>Recipe_find = (\<lambda>s. (Inl StoreFailure, s)),
      Recipe_findById = (\<lambda>i s. (Inl StoreFailure, s)),
      Recipe_create = (\<lambda>f s. (Inl StoreFailure, s)),
      Recipe_findByIdAndUpdate = (\<lambda>i f s. (Inl StoreFailure, s)),
      Recipe_findByIdAndDelete = (\<lambda>i s. (Inl StoreFailure, s))\<rparr>"

section \<open>The record store\<close>

text \<open>
  The module \<open>models/Recipe\<close> (the schema and the database client behind it) is not
  among the sources. The handlers above take it as the parameter \<open>M\<close>. What follows is
  one such model, written from the specification's description of the Record Store, for
  the properties that depend on what the store itself does.
\<close>

text \<open>JSON values; the number type is left open, no rule below looks at a number.\<close>

datatype 'n jsval =
    JNull
  | JBool bool
  | JNum 'n
  | JStr string
  | JArr "'n jsval list"
  | JObj "(string \<times> 'n jsval) list"

text \<open>
  Modelled from the spec: the Recipe entity (section 3), the four mutable fields and the
  identifier assigned by the Record Store. A field is \<open>None\<close> when it is absent.
\<close>

record 'v recipe = "'v fields" +
  recipe_id :: string

text \<open>
  Modelled from the spec: the Record Store's addressing scheme. The specification calls
  identifiers opaque and only distinguishes well-formed from malformed ones, so the
  scheme is a parameter: which strings are well-formed, and which identifier is assigned
  next, given the identifiers assigned so far.
\<close>

record id_scheme =
  well_formed :: "string \<Rightarrow> bool"
  fresh :: "string list \<Rightarrow> string"

text \<open>
  Modelled from the spec: the state of the Record Store, the documents in the store's
  natural order and the identifiers assigned so far (an identifier is never reused).
\<close>

record 'v collection =
  issued :: "string list"
  docs :: "'v recipe list"

text \<open>Modelled from the spec: the record an identifier resolves to, if any.\<close>

definition stored :: "string \<Rightarrow> 'v collection \<Rightarrow> 'v recipe option" where
  "stored i c = find (\<lambda>d. recipe_id d = i) (docs c)"

text \<open>
  Modelled from the spec: the schema of section 3 that the Record Store enforces on
  creation. \<open>title\<close> is required, non-empty text; \<open>ingredients\<close> is required, a
  sequence of text items; \<open>instructions\<close> is required text; \<open>image\<close> is optional text.
  First, what counts as text.
\<close>

definition is_text :: "'n jsval \<Rightarrow> bool" where
  "is_text v = (case v of JStr t \<Rightarrow> True | _ \<Rightarrow> False)"

text \<open>Modelled from the spec: an ordered sequence of text items (section 3).\<close>

definition is_text_seq :: "'n jsval \<Rightarrow> bool" where
  "is_text_seq v = (case v of JArr items \<Rightarrow> list_all is_text items | _ \<Rightarrow> False)"

text \<open>
  Modelled from the spec: the fields of a create request that satisfy the schema; any
  other request is a validation failure (missing required field, wrong type).
\<close>

definition validate :: "'n jsval fields \<Rightarrow> bool" where
  "validate f =
     ((case title f of Some (JStr t) \<Rightarrow> t \<noteq> [] | _ \<Rightarrow> False) \<and>
      (case ingredients f of Some v \<Rightarrow> is_text_seq v | None \<Rightarrow> False) \<and>
      (case instructions f of Some v \<Rightarrow> is_text v | None \<Rightarrow> False) \<and>
      (case image f of Some v \<Rightarrow> is_text v | None \<Rightarrow> True))"

text \<open>Modelled from the spec: \<open>findAll() -> seq<Recipe>\<close> (section 6).\<close>

definition store_find ::
  "'v collection \<Rightarrow> (store_error + 'v recipe list) \<times> 'v collection" where
  "store_find c = (Inr (docs c), c)"

text \<open>
  Modelled from the spec: \<open>findById(id) -> Recipe|absent\<close> (section 6); a malformed
  identifier is a failure of the store (sections 4.1 and 7).
\<close>

definition store_findById ::
  "id_scheme \<Rightarrow> string \<Rightarrow> 'v collection \<Rightarrow> (store_error + 'v recipe option) \<times> 'v collection" where
  "store_findById sch i c =
     (if well_formed sch i then (Inr (stored i c), c) else (Inl MalformedId, c))"

text \<open>
  Modelled from the spec: \<open>create(fields) -> Recipe\<close>, failing with ValidationError on
  a schema violation (section 6); the identifier is assigned by the store (section 3).
\<close>

definition store_create ::
  "id_scheme \<Rightarrow> 'n jsval fields \<Rightarrow> 'n jsval collection
    \<Rightarrow> (store_error + 'n jsval recipe) \<times> 'n jsval collection" where
  "store_create sch f c =
     (if validate f then
        (let i = fresh sch (issued c);
             d = \<lparr>title = title f, ingredients = ingredients f,
                  instructions = instructions f, image = image f, recipe_id = i\<rparr>
         in (Inr d, \<lparr>issued = i # issued c, docs = docs c @ [d]\<rparr>))
      else (Inl ValidationError, c))"

text \<open>
  Modelled from the spec: the four mutable fields of a record replaced by the fields of
  an update, an omitted one becoming absent (sections 3, 4.1 and 8).
\<close>

definition replace_fields :: "'v fields \<Rightarrow> 'v recipe \<Rightarrow> 'v recipe" where
  "replace_fields f d =
     d\<lparr>title := title f, ingredients := ingredients f,
       instructions := instructions f, image := image f\<rparr>"

text \<open>
  Modelled from the spec: \<open>findByIdAndUpdate(id, fields) -> Recipe|absent\<close> (section
  6), answering with the record as it is after the update (section 4.1).
\<close>

definition store_findByIdAndUpdate ::
  "id_scheme \<Rightarrow> string \<Rightarrow> 'v fields \<Rightarrow> 'v collection
    \<Rightarrow> (store_error + 'v recipe option) \<times> 'v collection" where
  "store_findByIdAndUpdate sch i f c =
     (if well_formed sch i then
        (case stored i c of
           None \<Rightarrow> (Inr None, c)
         | Some d \<Rightarrow>
             (Inr (Some (replace_fields f d)),
              c\<lparr>docs := map (\<lambda>d. if recipe_id d = i then replace_fields f d else d) (docs c)\<rparr>))
      else (Inl MalformedId, c))"

text \<open>
  Modelled from the spec: \<open>findByIdAndDelete(id) -> Recipe|absent\<close> (section 6).
\<close>

definition store_findByIdAndDelete ::
  "id_scheme \<Rightarrow> string \<Rightarrow> 'v collection \<Rightarrow> (store_error + 'v recipe option) \<times> 'v collection" where
  "store_findByIdAndDelete sch i c =
     (if well_formed sch i then
        (case stored i c of
           None \<Rightarrow> (Inr None, c)
         | Some d \<Rightarrow> (Inr (Some d), c\<lparr>docs := filter (\<lambda>d. recipe_id d \<noteq> i) (docs c)\<rparr>))
      else (Inl MalformedId, c))"

text \<open>Modelled from the spec: the Record Store as the model the handlers call.\<close>

definition record_store ::
  "id_scheme \<Rightarrow> ('n jsval collection, 'n jsval, 'n jsval recipe) model" where
  "record_store sch =
     \<lparr>Recipe_find = store_find,
      Recipe_findById = store_findById sch,
      Recipe_create = store_create sch,
      Recipe_findByIdAndUpdate = store_findByIdAndUpdate sch,
      Recipe_findByIdAndDelete = store_findByIdAndDelete sch\<rparr>"

text \<open>
  Modelled from the spec: identifiers are assigned by the Record Store (section 3), so
  every stored record carries one of the identifiers assigned so far.
\<close>

definition ids_assigned :: "'v collection \<Rightarrow> bool" where
  "ids_assigned c = list_all (\<lambda>d. recipe_id d \<in> set (issued c)) (docs c)"

subsection \<open>Concrete data\<close>

text \<open>
  A small addressing scheme for the examples: an identifier is a non-empty run of the
  digit 1, and the n-th identifier assigned has n digits.
\<close>

definition unary_ids :: id_scheme where
  "unary_ids =
     \<lparr>well_formed = (\<lambda>i. i \<noteq> [] \<and> list_all (\<lambda>ch. ch = CHR ''1'') i),
      fresh = (\<lambda>used. replicate (Suc (length used)) (CHR ''1''))\<rparr>"

text \<open>The request of the specification's example scenario, and the store after it.\<close>

definition tea_request :: "int jsval request" where
  "tea_request =
     \<lparr>param_id = [],
      req_body = map_of
        [(''title'', JStr ''Tea''),
         (''ingredients'', JArr [JStr ''water'', JStr ''tea leaves'']),
         (''instructions'', JStr ''Boil and steep.'')]\<rparr>"

definition tea :: "int jsval recipe" where
  "tea =
     \<lparr>title = Some (JStr ''Tea''),
      ingredients = Some (JArr [JStr ''water'', JStr ''tea leaves'']),
      instructions = Some (JStr ''Boil and steep.''),
      image = None,
      recipe_id = ''1''\<rparr>"

definition empty_store :: "int jsval collection" where
  "empty_store = \<lparr>issued = [], docs = []\<rparr>"

definition tea_store :: "int jsval collection" where
  "tea_store = \<lparr>issued = [''1''], docs = [tea]\<rparr>"

text \<open>
  An update of record 1 that carries only a title and an \<open>id\<close> of the client's own, and
  the same update without the \<open>id\<close>.
\<close>

definition rename_request :: "int jsval request" where
  "rename_request =
     \<lparr>param_id = ''1'',
      req_body = map_of [(''title'', JStr ''Green tea''), (''id'', JStr ''111'')]\<rparr>"

definition rename_request_plain :: "int jsval request" where
  "rename_request_plain =
     \<lparr>param_id = ''1'', req_body = map_of [(''title'', JStr ''Green tea'')]\<rparr>"

text \<open>A create request with no \<open>ingredients\<close>.\<close>

definition no_ingredients_request :: "int jsval request" where
  "no_ingredients_request =
     \<lparr>param_id = [],
      req_body = map_of
        [(''title'', JStr ''Tea''), (''instructions'', JStr ''Boil and steep.'')]\<rparr>"

text \<open>A create request with ingredients and instructions but no \<open>title\<close>.\<close>

definition no_title_request :: "int jsval request" where
  "no_title_request =
     \<lparr>param_id = [],
      req_body = map_of
        [(''ingredients'', JArr [JStr ''water'', JStr ''tea leaves'']),
         (''instructions'', JStr ''Boil and steep.'')]\<rparr>"

text \<open>
  Requests for an identifier that is well-formed but was never assigned, and for one that
  is malformed; and the store after record 1 has been deleted.
\<close>

definition unknown_request :: "int jsval request" where
  "unknown_request =
     \<lparr>param_id = ''11'', req_body = map_of [(''title'', JStr ''Green tea'')]\<rparr>"

definition malformed_request :: "int jsval request" where
  "malformed_request = \<lparr>param_id = ''not-an-id'', req_body = map_of []\<rparr>"

definition drained_store :: "int jsval collection" where
  "drained_store = \<lparr>issued = [''1''], docs = []\<rparr>"

section \<open>Each handler makes one call\<close>

lemma journalled_get_recipes:
  "get_recipes (journalled M) req (s, calls) =
     (fst (get_recipes M req s), snd (get_recipes M req s), calls @ [Find])"
  by (simp add: get_recipes_def journalled_def noted_def split: prod.splits sum.splits)

lemma journalled_get_recipe:
  "get_recipe (journalled M) req (s, calls) =
     (fst (get_recipe M req s), snd (get_recipe M req s), calls @ [FindById (param_id req)])"
  by (simp add: get_recipe_def journalled_def noted_def
      split: prod.splits sum.splits option.splits)

lemma journalled_post_recipes:
  "post_recipes (journalled M) req (s, calls) =
     (fst (post_recipes M req s), snd (post_recipes M req s),
      calls @ [Create (body_fields req)])"
  by (simp add: post_recipes_def journalled_def noted_def split: prod.splits sum.splits)

lemma journalled_put_recipe:
  "put_recipe (journalled M) req (s, calls) =
     (fst (put_recipe M req s), snd (put_recipe M req s),
      calls @ [FindByIdAndUpdate (param_id req) (body_fields req)])"
  by (simp add: put_recipe_def journalled_def noted_def
      split: prod.splits sum.splits option.splits)

lemma journalled_delete_recipe:
  "delete_recipe (journalled M) req (s, calls) =
     (fst (delete_recipe M req s), snd (delete_recipe M req s),
      calls @ [FindByIdAndDelete (param_id req)])"
  by (simp add: delete_recipe_def journalled_def noted_def
      split: prod.splits sum.splits option.splits)

lemma get_recipes_calls: "calls_of get_recipes M req s = [Find]"
  by (simp add: calls_of_def journalled_get_recipes)

lemma get_recipe_calls: "calls_of get_recipe M req s = [FindById (param_id req)]"
  by (simp add: calls_of_def journalled_get_recipe)

lemma post_recipes_calls: "calls_of post_recipes M req s = [Create (body_fields req)]"
  by (simp add: calls_of_def journalled_post_recipes)

lemma put_recipe_calls:
  "calls_of put_recipe M req s = [FindByIdAndUpdate (param_id req) (body_fields req)]"
  by (simp add: calls_of_def journalled_put_recipe)

lemma delete_recipe_calls:
  "calls_of delete_recipe M req s = [FindByIdAndDelete (param_id req)]"
  by (simp add: calls_of_def journalled_delete_recipe)

section \<open>What the record store does\<close>

lemma record_store_sel:
  "Recipe_find (record_store sch) = store_find"
  "Recipe_findById (record_store sch) = store_findById sch"
  "Recipe_create (record_store sch) = store_create sch"
  "Recipe_findByIdAndUpdate (record_store sch) = store_findByIdAndUpdate sch"
  "Recipe_findByIdAndDelete (record_store sch) = store_findByIdAndDelete sch"
  by (simp_all add: record_store_def)

lemmas examples =
  tea_request_def tea_def empty_store_def tea_store_def rename_request_def
  rename_request_plain_def no_ingredients_request_def no_title_request_def
  unknown_request_def
  malformed_request_def drained_store_def unary_ids_def

lemmas store_ops =
  record_store_sel store_find_def store_findById_def store_create_def
  store_findByIdAndUpdate_def store_findByIdAndDelete_def stored_def
  replace_fields_def validate_def is_text_def is_text_seq_def body_fields_def Let_def

lemma stored_id: "stored i c = Some d \<Longrightarrow> recipe_id d = i"
  by (auto simp: stored_def find_Some_iff)

lemma stored_None_iff: "stored i c = None \<longleftrightarrow> i \<notin> recipe_id ` set (docs c)"
  by (auto simp: stored_def find_None_iff)

lemma find_map_replace:
  "find (\<lambda>d. recipe_id d = i) ds = Some d \<Longrightarrow>
   find (\<lambda>d. recipe_id d = i) (map (\<lambda>d. if recipe_id d = i then replace_fields f d else d) ds)
     = Some (replace_fields f d)"
  by (induction ds) (auto simp: replace_fields_def split: if_splits)

lemma map_replace_ids:
  "map recipe_id (map (\<lambda>d. if recipe_id d = i then replace_fields f d else d) ds)
     = map recipe_id ds"
  by (induction ds) (auto simp: replace_fields_def)

lemma find_filter_out:
  "find (\<lambda>d. recipe_id d = i) (filter (\<lambda>d. recipe_id d \<noteq> i) ds) = None"
  by (simp add: find_None_iff)

lemma find_append_fresh:
  "i \<notin> recipe_id ` set ds \<Longrightarrow> recipe_id d = i \<Longrightarrow>
   find (\<lambda>d. recipe_id d = i) (ds @ [d]) = Some d"
  by (induction ds) auto

lemma absent_field_invalid:
  "req_body req ''ingredients'' = None \<Longrightarrow> \<not> validate (body_fields req)"
  by (simp add: validate_def body_fields_def)

text \<open>A well-formed identifier that matches nothing: every operation answers absent
  and leaves the store as it was.\<close>

lemma record_store_absent:
  assumes "well_formed sch i" and "stored i c = None"
  shows "Recipe_findById (record_store sch) i c = (Inr None, c)"
    and "Recipe_findByIdAndUpdate (record_store sch) i f c = (Inr None, c)"
    and "Recipe_findByIdAndDelete (record_store sch) i c = (Inr None, c)"
  using assms
  by (simp_all add: record_store_sel store_findById_def store_findByIdAndUpdate_def
      store_findByIdAndDelete_def)

text \<open>A malformed identifier: every operation by identifier is rejected.\<close>

lemma record_store_malformed:
  assumes "\<not> well_formed sch i"
  shows "Recipe_findById (record_store sch) i c = (Inl MalformedId, c)"
    and "Recipe_findByIdAndUpdate (record_store sch) i f c = (Inl MalformedId, c)"
    and "Recipe_findByIdAndDelete (record_store sch) i c = (Inl MalformedId, c)"
  using assms
  by (simp_all add: record_store_sel store_findById_def store_findByIdAndUpdate_def
      store_findByIdAndDelete_def)

lemma record_store_invalid:
  "\<not> validate f \<Longrightarrow> Recipe_create (record_store sch) f c = (Inl ValidationError, c)"
  by (simp add: record_store_sel store_create_def)

text \<open>
  A create the record store rejects is a validation failure, and it leaves the store as
  it was: the documents and the identifiers assigned so far are untouched.
\<close>

lemma record_store_rejected:
  assumes "fst (Recipe_create (record_store sch) f c) = Inl e"
  shows "\<not> validate f" and "Recipe_create (record_store sch) f c = (Inl ValidationError, c)"
  using assms
  by (simp_all add: record_store_sel store_create_def Let_def split: if_splits)

lemma record_store_delete:
  assumes "well_formed sch i" and "stored i c = Some d"
  shows "Recipe_findByIdAndDelete (record_store sch) i c =
           (Inr (Some d), c\<lparr>docs := filter (\<lambda>d. recipe_id d \<noteq> i) (docs c)\<rparr>)"
  using assms by (simp add: record_store_sel store_findByIdAndDelete_def)

lemma record_store_update:
  assumes "well_formed sch i" and "stored i c = Some d"
  shows "Recipe_findByIdAndUpdate (record_store sch) i f c =
           (Inr (Some (replace_fields f d)),
            c\<lparr>docs := map (\<lambda>d. if recipe_id d = i then replace_fields f d else d) (docs c)\<rparr>)"
  using assms by (simp add: record_store_sel store_findByIdAndUpdate_def)

text \<open>
  Every stored record carries an identifier the store has assigned. This holds of the
  empty store and every operation keeps it, so an identifier that was never assigned
  resolves to nothing, and an identifier the scheme has not used before is not the
  identifier of any stored record.
\<close>

lemma ids_assigned_empty: "ids_assigned \<lparr>issued = [], docs = []\<rparr>"
  by (simp add: ids_assigned_def)

lemma ids_assigned_create:
  "ids_assigned c \<Longrightarrow> ids_assigned (snd (store_create sch f c))"
  by (auto simp: ids_assigned_def list_all_iff store_create_def Let_def)

lemma ids_assigned_update:
  "ids_assigned c \<Longrightarrow> ids_assigned (snd (store_findByIdAndUpdate sch i f c))"
  by (auto simp: ids_assigned_def list_all_iff store_findByIdAndUpdate_def
      replace_fields_def split: option.splits)

lemma ids_assigned_delete:
  "ids_assigned c \<Longrightarrow> ids_assigned (snd (store_findByIdAndDelete sch i c))"
  by (auto simp: ids_assigned_def list_all_iff store_findByIdAndDelete_def
      split: option.splits)

lemma never_assigned_absent:
  "ids_assigned c \<Longrightarrow> i \<notin> set (issued c) \<Longrightarrow> stored i c = None"
  by (auto simp: stored_None_iff ids_assigned_def list_all_iff)

lemma unused_not_stored:
  "ids_assigned c \<Longrightarrow> fresh sch (issued c) \<notin> set (issued c) \<Longrightarrow>
   fresh sch (issued c) \<notin> recipe_id ` set (docs c)"
  by (auto simp: ids_assigned_def list_all_iff)

lemma deleted_absent:
  "well_formed sch i \<Longrightarrow> stored i (snd (store_findByIdAndDelete sch i c)) = None"
  by (auto simp: store_findByIdAndDelete_def stored_def find_filter_out split: option.splits)

section \<open>Properties of the routes\<close>

text \<open>
  In the statements below \<open>M\<close> is any model whatever; \<open>record_store sch\<close> is used
  where a property needs to say what the store itself keeps.
\<close>

subsection \<open>Update by id\<close>

text \<open>
  C1. For every identifier that resolves to a record and every update request body, the
  update replaces all four mutable fields: afterwards the stored record, which is also
  the one sent back with status 200, has under each of title, ingredients, instructions
  and image exactly what the body has under that key, so a field the body omits becomes
  absent whatever the old value was. Stated for the record store.
\<close>

theorem update_replaces_all_fields:
  assumes "well_formed sch (param_id req)" and "stored (param_id req) c = Some old"
  shows "stored (param_id req) (snd (put_recipe (record_store sch) req c)) =
           Some (old\<lparr>title := req_body req ''title'',
                     ingredients := req_body req ''ingredients'',
                     instructions := req_body req ''instructions'',
                     image := req_body req ''image''\<rparr>) \<and>
         fst (put_recipe (record_store sch) req c) =
           \<lparr>status = 200,
            payload = Recipe_json
              (old\<lparr>title := req_body req ''title'',
                    ingredients := req_body req ''ingredients'',
                    instructions := req_body req ''instructions'',
                    image := req_body req ''image''\<rparr>)\<rparr>"
proof -
  have "find (\<lambda>d. recipe_id d = param_id req) (docs c) = Some old"
    using assms(2) by (simp add: stored_def)
  from find_map_replace [OF this, of "body_fields req"] assms show ?thesis
    by (simp add: put_recipe_def record_store_update stored_def)
      (simp add: replace_fields_def body_fields_def)
qed

text \<open>
  Record 1 holds the tea recipe; an update that carries only a title leaves it with that
  title and no ingredients, instructions or image.
\<close>

theorem update_replaces_all_fields_witness:
  "well_formed unary_ids (param_id rename_request) \<and>
   stored (param_id rename_request) tea_store = Some tea \<and>
   req_body rename_request ''ingredients'' = None \<and>
   ingredients tea = Some (JArr [JStr ''water'', JStr ''tea leaves'']) \<and>
   stored (param_id rename_request)
     (snd (put_recipe (record_store unary_ids) rename_request tea_store)) =
     Some \<lparr>title = Some (JStr ''Green tea''), ingredients = None, instructions = None,
           image = None, recipe_id = ''1''\<rparr>"
proof -
  have wf: "well_formed unary_ids (param_id rename_request)"
    by (simp add: examples)
  have there: "stored (param_id rename_request) tea_store = Some tea"
    by (simp add: stored_def examples)
  from update_replaces_all_fields [OF wf there] wf there show ?thesis
    by (simp add: rename_request_def tea_def)
qed

text \<open>
  C9. An update never changes a record's identifier. For every model and every request,
  the one call the handler makes is \<open>findByIdAndUpdate\<close> with the path's identifier and
  the four fields, and putting an \<open>id\<close> or \<open>_id\<close> of whatever value into the body leaves
  those four fields as they are. In the record store, for every identifier that resolves
  to a record and every body, the record sent back has the identifier of the path, and
  the identifiers of the stored records and the identifiers assigned so far are the same
  before and after.
\<close>

theorem update_keeps_id:
  "calls_of put_recipe M req s = [FindByIdAndUpdate (param_id req) (body_fields req)] \<and>
   body_fields (req\<lparr>req_body := (req_body req)(''id'' := v, ''_id'' := w)\<rparr>) = body_fields req \<and>
   (well_formed sch (param_id rq) \<and> stored (param_id rq) c = Some d \<longrightarrow>
      fst (put_recipe (record_store sch) rq c) =
        \<lparr>status = 200, payload = Recipe_json (replace_fields (body_fields rq) d)\<rparr> \<and>
      recipe_id (replace_fields (body_fields rq) d) = param_id rq \<and>
      map recipe_id (docs (snd (put_recipe (record_store sch) rq c))) = map recipe_id (docs c) \<and>
      issued (snd (put_recipe (record_store sch) rq c)) = issued c)"
  by (auto simp add: put_recipe_def put_recipe_calls record_store_update map_replace_ids
      body_fields_def replace_fields_def dest: stored_id)

theorem update_keeps_id_witness:
  "req_body rename_request ''id'' = Some (JStr ''111'') \<and>
   well_formed unary_ids (param_id rename_request) \<and>
   stored (param_id rename_request) tea_store = Some tea \<and>
   calls_of put_recipe (record_store unary_ids) rename_request tea_store =
     [FindByIdAndUpdate ''1''
        \<lparr>title = Some (JStr ''Green tea''), ingredients = None, instructions = None,
         image = None\<rparr>] \<and>
   map recipe_id (docs (snd (put_recipe (record_store unary_ids) rename_request tea_store)))
     = [''1''] \<and>
   recipe_id (replace_fields (body_fields rename_request) tea) = ''1''"
proof -
  have wf: "well_formed unary_ids (param_id rename_request)"
    by (simp add: examples)
  have there: "stored (param_id rename_request) tea_store = Some tea"
    by (simp add: stored_def examples)
  note update_keeps_id [where M = "record_store unary_ids" and req = rename_request
      and s = tea_store and sch = unary_ids and rq = rename_request and c = tea_store
      and d = tea]
  with wf there show ?thesis
    by (simp add: body_fields_def rename_request_def tea_store_def tea_def)
qed

subsection \<open>Create, then get\<close>

text \<open>
  C2. For every create request whose fields pass the schema, creating the recipe and
  then getting it by the identifier found in the create response yields status 200 and
  the very record the create response carried, whose title, ingredients, instructions and
  image are the values of the request body. Stated for the record store, for a scheme
  that at this point assigns a well-formed identifier no stored record has.
\<close>

theorem create_then_get:
  assumes "validate (body_fields req)"
    and "well_formed sch (fresh sch (issued c))"
    and "fresh sch (issued c) \<notin> recipe_id ` set (docs c)"
  shows "case post_recipes (record_store sch) req c of
           (res, c') \<Rightarrow>
             (case payload res of
                Created_json msg recipe \<Rightarrow>
                  status res = 201 \<and>
                  get_recipe (record_store sch) \<lparr>param_id = recipe_id recipe, req_body = b\<rparr> c' =
                    (\<lparr>status = 200, payload = Recipe_json recipe\<rparr>, c') \<and>
                  title recipe = req_body req ''title'' \<and>
                  ingredients recipe = req_body req ''ingredients'' \<and>
                  instructions recipe = req_body req ''instructions'' \<and>
                  image recipe = req_body req ''image''
              | _ \<Rightarrow> False)"
  using assms
  by (simp add: post_recipes_def get_recipe_def record_store_sel store_create_def Let_def
      store_findById_def stored_def find_append_fresh body_fields_def)

text \<open>The specification's example: the tea recipe posted to the empty store.\<close>

theorem create_then_get_witness:
  "validate (body_fields tea_request) \<and>
   well_formed unary_ids (fresh unary_ids (issued empty_store)) \<and>
   fresh unary_ids (issued empty_store) \<notin> recipe_id ` set (docs empty_store) \<and>
   post_recipes (record_store unary_ids) tea_request empty_store =
     (\<lparr>status = 201, payload = Created_json ''Recipe Created'' tea\<rparr>, tea_store) \<and>
   get_recipe (record_store unary_ids) \<lparr>param_id = recipe_id tea, req_body = Map.empty\<rparr>
     tea_store = (\<lparr>status = 200, payload = Recipe_json tea\<rparr>, tea_store)"
proof -
  have valid: "validate (body_fields tea_request)"
    by (simp add: validate_def is_text_def is_text_seq_def body_fields_def tea_request_def)
  have wf: "well_formed unary_ids (fresh unary_ids (issued empty_store))"
    by (simp add: unary_ids_def empty_store_def)
  have unused: "fresh unary_ids (issued empty_store) \<notin> recipe_id ` set (docs empty_store)"
    by (simp add: empty_store_def)
  have created: "post_recipes (record_store unary_ids) tea_request empty_store =
     (\<lparr>status = 201, payload = Created_json ''Recipe Created'' tea\<rparr>, tea_store)"
    by (simp add: post_recipes_def store_ops examples)
  from create_then_get [OF valid wf unused, of Map.empty] valid wf unused created
  show ?thesis
    by simp
qed

subsection \<open>Not found\<close>

text \<open>
  C3. When the identifier resolves to no record, get, update and delete by id each
  answer 404 with the body \<open>{ error: 'Recipe not found' }\<close>, and the store is left
  unchanged. For every model: whenever the model's call answers absent, the handler
  sends that response and leaves the store in the state the call left. In the record
  store: for every well-formed identifier that matches no stored record, all three send
  that response and the store afterwards is the store before.
\<close>

theorem absent_is_404:
  "(Recipe_findById M (param_id req) s = (Inr None, s') \<longrightarrow>
      get_recipe M req s =
        (\<lparr>status = 404, payload = Error_json ''Recipe not found''\<rparr>, s')) \<and>
   (Recipe_findByIdAndUpdate M (param_id req) (body_fields req) s = (Inr None, s') \<longrightarrow>
      put_recipe M req s =
        (\<lparr>status = 404, payload = Error_json ''Recipe not found''\<rparr>, s')) \<and>
   (Recipe_findByIdAndDelete M (param_id req) s = (Inr None, s') \<longrightarrow>
      delete_recipe M req s =
        (\<lparr>status = 404, payload = Error_json ''Recipe not found''\<rparr>, s')) \<and>
   (well_formed sch (param_id rq) \<and> stored (param_id rq) c = None \<longrightarrow>
      get_recipe (record_store sch) rq c =
        (\<lparr>status = 404, payload = Error_json ''Recipe not found''\<rparr>, c) \<and>
      put_recipe (record_store sch) rq c =
        (\<lparr>status = 404, payload = Error_json ''Recipe not found''\<rparr>, c) \<and>
      delete_recipe (record_store sch) rq c =
        (\<lparr>status = 404, payload = Error_json ''Recipe not found''\<rparr>, c))"
  by (simp add: get_recipe_def put_recipe_def delete_recipe_def record_store_absent)

text \<open>
  Identifier 11 was never assigned in the store that holds record 1; identifier 1 has
  been deleted from the drained store.
\<close>

theorem absent_is_404_witness:
  "well_formed unary_ids (param_id unknown_request) \<and>
   stored (param_id unknown_request) tea_store = None \<and>
   Recipe_findById (record_store unary_ids) (param_id unknown_request) tea_store
     = (Inr None, tea_store) \<and>
   Recipe_findByIdAndUpdate (record_store unary_ids) (param_id unknown_request)
     (body_fields unknown_request) tea_store = (Inr None, tea_store) \<and>
   Recipe_findByIdAndDelete (record_store unary_ids) (param_id unknown_request) tea_store
     = (Inr None, tea_store) \<and>
   get_recipe (record_store unary_ids) unknown_request tea_store =
     (\<lparr>status = 404, payload = Error_json ''Recipe not found''\<rparr>, tea_store) \<and>
   put_recipe (record_store unary_ids) unknown_request tea_store =
     (\<lparr>status = 404, payload = Error_json ''Recipe not found''\<rparr>, tea_store) \<and>
   delete_recipe (record_store unary_ids) unknown_request tea_store =
     (\<lparr>status = 404, payload = Error_json ''Recipe not found''\<rparr>, tea_store) \<and>
   well_formed unary_ids (param_id rename_request) \<and>
   stored (param_id rename_request) drained_store = None \<and>
   get_recipe (record_store unary_ids) rename_request drained_store =
     (\<lparr>status = 404, payload = Error_json ''Recipe not found''\<rparr>, drained_store)"
proof -
  have wf: "well_formed unary_ids (param_id unknown_request)"
    "well_formed unary_ids (param_id rename_request)"
    by (simp_all add: examples)
  have none: "stored (param_id unknown_request) tea_store = None"
    "stored (param_id rename_request) drained_store = None"
    by (simp_all add: stored_def examples)
  note never = absent_is_404 [where M = "record_store unary_ids" and req = unknown_request
      and s = tea_store and s' = tea_store and sch = unary_ids and rq = unknown_request
      and c = tea_store]
  note deleted = absent_is_404 [where M = "record_store unary_ids" and req = rename_request
      and s = drained_store and s' = drained_store and sch = unary_ids
      and rq = rename_request and c = drained_store]
  from never deleted wf none show ?thesis
    by (simp add: record_store_absent)
qed

subsection \<open>Create\<close>

text \<open>
  C4. Whenever the model's create is rejected, for whatever reason, the create handler
  answers 400 with the fixed body \<open>{ error: 'Invalid data' }\<close>, which says nothing about
  the reason or the field; it has made that one call and no other, so the store is in
  the state the rejected call left. In the record store, for every request whose create
  is rejected, and so for every request whose fields fail the schema, a body without
  ingredients among them, the answer is 400 and the store afterwards is the store
  before: no record has been created, and a listing made next returns exactly the
  records that were there.
\<close>

theorem create_failure_is_400:
  "(Recipe_create M (body_fields req) s = (Inl err, s') \<longrightarrow>
      post_recipes M req s = (\<lparr>status = 400, payload = Error_json ''Invalid data''\<rparr>, s') \<and>
      calls_of post_recipes M req s = [Create (body_fields req)]) \<and>
   (fst (Recipe_create (record_store sch) (body_fields rj) c) = Inl e \<longrightarrow>
      post_recipes (record_store sch) rj c =
        (\<lparr>status = 400, payload = Error_json ''Invalid data''\<rparr>, c) \<and>
      docs (snd (post_recipes (record_store sch) rj c)) = docs c \<and>
      issued (snd (post_recipes (record_store sch) rj c)) = issued c \<and>
      get_recipes (record_store sch) rj (snd (post_recipes (record_store sch) rj c)) =
        (\<lparr>status = 200, payload = Recipes_json (docs c)\<rparr>, c)) \<and>
   (\<not> validate (body_fields ri) \<longrightarrow>
      post_recipes (record_store sch) ri c =
        (\<lparr>status = 400, payload = Error_json ''Invalid data''\<rparr>, c)) \<and>
   (req_body rq ''ingredients'' = None \<longrightarrow>
      post_recipes (record_store sch) rq c =
        (\<lparr>status = 400, payload = Error_json ''Invalid data''\<rparr>, c))"
proof -
  have general: "Recipe_create M (body_fields req) s = (Inl err, s') \<longrightarrow>
      post_recipes M req s = (\<lparr>status = 400, payload = Error_json ''Invalid data''\<rparr>, s') \<and>
      calls_of post_recipes M req s = [Create (body_fields req)]"
    by (simp add: post_recipes_def post_recipes_calls)
  have invalid: "post_recipes (record_store sch) r c =
        (\<lparr>status = 400, payload = Error_json ''Invalid data''\<rparr>, c)"
    if "\<not> validate (body_fields r)" for r
    using that by (simp add: post_recipes_def record_store_invalid)
  have rejected: "post_recipes (record_store sch) rj c =
        (\<lparr>status = 400, payload = Error_json ''Invalid data''\<rparr>, c) \<and>
      docs (snd (post_recipes (record_store sch) rj c)) = docs c \<and>
      issued (snd (post_recipes (record_store sch) rj c)) = issued c \<and>
      get_recipes (record_store sch) rj (snd (post_recipes (record_store sch) rj c)) =
        (\<lparr>status = 200, payload = Recipes_json (docs c)\<rparr>, c)"
    if "fst (Recipe_create (record_store sch) (body_fields rj) c) = Inl e"
    using invalid [OF record_store_rejected(1) [OF that]]
    by (simp add: get_recipes_def record_store_sel store_find_def)
  from general rejected invalid absent_field_invalid show ?thesis
    by blast
qed

text \<open>
  In the store that holds record 1: a body without ingredients and a body without a
  title are both rejected and the store still holds record 1 alone; and an unreachable
  database, which rejects a valid body, gives the same 400.
\<close>

theorem create_failure_is_400_witness:
  "req_body no_ingredients_request ''ingredients'' = None \<and>
   Recipe_create (record_store unary_ids) (body_fields no_ingredients_request) tea_store
     = (Inl ValidationError, tea_store) \<and>
   post_recipes (record_store unary_ids) no_ingredients_request tea_store =
     (\<lparr>status = 400, payload = Error_json ''Invalid data''\<rparr>, tea_store) \<and>
   req_body no_title_request ''ingredients'' \<noteq> None \<and>
   \<not> validate (body_fields no_title_request) \<and>
   fst (Recipe_create (record_store unary_ids) (body_fields no_title_request) tea_store)
     = Inl ValidationError \<and>
   post_recipes (record_store unary_ids) no_title_request tea_store =
     (\<lparr>status = 400, payload = Error_json ''Invalid data''\<rparr>, tea_store) \<and>
   docs (snd (post_recipes (record_store unary_ids) no_title_request tea_store)) = [tea] \<and>
   get_recipes (record_store unary_ids) no_title_request
     (snd (post_recipes (record_store unary_ids) no_title_request tea_store)) =
     (\<lparr>status = 200, payload = Recipes_json [tea]\<rparr>, tea_store) \<and>
   Recipe_create (unreachable :: (unit, int jsval, int jsval recipe) model)
     (body_fields tea_request) () = (Inl StoreFailure, ()) \<and>
   post_recipes (unreachable :: (unit, int jsval, int jsval recipe) model) tea_request () =
     (\<lparr>status = 400, payload = Error_json ''Invalid data''\<rparr>, ())"
proof -
  have absent: "req_body no_ingredients_request ''ingredients'' = None"
    by (simp add: no_ingredients_request_def)
  have present: "req_body no_title_request ''ingredients'' \<noteq> None"
    by (simp add: no_title_request_def)
  have bad: "\<not> validate (body_fields no_title_request)"
    by (simp add: validate_def body_fields_def no_title_request_def)
  have rejected:
    "Recipe_create (record_store unary_ids) (body_fields no_ingredients_request) tea_store
       = (Inl ValidationError, tea_store)"
    by (simp add: record_store_invalid absent_field_invalid absent)
  have rejected':
    "fst (Recipe_create (record_store unary_ids) (body_fields no_title_request) tea_store)
       = Inl ValidationError"
    by (simp add: record_store_invalid bad)
  have down: "Recipe_create (unreachable :: (unit, int jsval, int jsval recipe) model)
     (body_fields tea_request) () = (Inl StoreFailure, ())"
    by (simp add: unreachable_def)
  note a = create_failure_is_400 [where M = "record_store unary_ids"
      and req = no_ingredients_request and s = tea_store and s' = tea_store
      and err = ValidationError and sch = unary_ids and rj = no_title_request
      and e = ValidationError and ri = no_title_request and rq = no_ingredients_request
      and c = tea_store]
  note b = create_failure_is_400 [where
      M = "unreachable :: (unit, int jsval, int jsval recipe) model"
      and req = tea_request and s = "()" and s' = "()" and err = StoreFailure
      and sch = unary_ids and rj = no_title_request and e = ValidationError
      and ri = no_title_request and rq = no_ingredients_request and c = tea_store]
  from a b absent present bad rejected rejected' down show ?thesis
    by (simp add: tea_store_def)
qed

text \<open>
  C5. Whenever the model's create succeeds, the create handler answers 201 with the
  body \<open>{ message: 'Recipe Created', recipe }\<close>, where \<open>recipe\<close> is the record the model
  returned, identifier included, and the store is in the state that call left.
\<close>

theorem create_success_is_201:
  assumes "Recipe_create M (body_fields req) s = (Inr recipe, s')"
  shows "post_recipes M req s =
           (\<lparr>status = 201, payload = Created_json ''Recipe Created'' recipe\<rparr>, s') \<and>
         calls_of post_recipes M req s = [Create (body_fields req)]"
  using assms by (simp add: post_recipes_def post_recipes_calls)

theorem create_success_is_201_witness:
  "Recipe_create (record_store unary_ids) (body_fields tea_request) empty_store
     = (Inr tea, tea_store) \<and>
   post_recipes (record_store unary_ids) tea_request empty_store =
     (\<lparr>status = 201, payload = Created_json ''Recipe Created'' tea\<rparr>, tea_store) \<and>
   recipe_id tea = ''1''"
proof -
  have h: "Recipe_create (record_store unary_ids) (body_fields tea_request) empty_store
     = (Inr tea, tea_store)"
    by (simp add: store_ops examples)
  from create_success_is_201 [OF h] h show ?thesis
    by (simp add: tea_def)
qed

subsection \<open>Get by id\<close>

text \<open>
  C6. Whenever the model's lookup is rejected, as it is for an identifier that is
  malformed for the store's addressing scheme, get by id answers 500 with the body
  \<open>{ error: 'Internal Server Error' }\<close>: never 404, and the same response it gives when
  the database cannot be reached.
\<close>

theorem store_error_on_lookup_is_500:
  assumes "Recipe_findById M (param_id req) s = (Inl err, s')"
  shows "get_recipe M req s =
           (\<lparr>status = 500, payload = Error_json ''Internal Server Error''\<rparr>, s') \<and>
         status (fst (get_recipe M req s)) \<noteq> 404 \<and>
         fst (get_recipe M req s) = fst (get_recipe unreachable req ())"
  using assms by (simp add: get_recipe_def unreachable_def)

theorem store_error_on_lookup_is_500_witness:
  "\<not> well_formed unary_ids (param_id malformed_request) \<and>
   Recipe_findById (record_store unary_ids) (param_id malformed_request) tea_store
     = (Inl MalformedId, tea_store) \<and>
   get_recipe (record_store unary_ids) malformed_request tea_store =
     (\<lparr>status = 500, payload = Error_json ''Internal Server Error''\<rparr>, tea_store)"
proof -
  have h: "Recipe_findById (record_store unary_ids) (param_id malformed_request) tea_store
     = (Inl MalformedId, tea_store)"
    by (simp add: store_ops examples)
  from store_error_on_lookup_is_500 [OF h] h show ?thesis
    by (simp add: malformed_request_def unary_ids_def)
qed

subsection \<open>List\<close>

text \<open>
  C7. The list handler makes the one call \<open>find\<close>, whatever the request. When the
  call yields a sequence of records, the answer is 200 with exactly that sequence; when
  the call is rejected, the answer is 500 with the body
  \<open>{ error: 'Internal Server Error' }\<close>, and the call is not repeated.
\<close>

theorem list_recipes:
  "(Recipe_find M s = (Inr recipes, s') \<longrightarrow>
      get_recipes M req s = (\<lparr>status = 200, payload = Recipes_json recipes\<rparr>, s')) \<and>
   (Recipe_find M s = (Inl err, s') \<longrightarrow>
      get_recipes M req s =
        (\<lparr>status = 500, payload = Error_json ''Internal Server Error''\<rparr>, s')) \<and>
   calls_of get_recipes M req s = [Find]"
  by (simp add: get_recipes_def get_recipes_calls)

theorem list_recipes_witness:
  "Recipe_find (record_store unary_ids) tea_store = (Inr [tea], tea_store) \<and>
   get_recipes (record_store unary_ids) tea_request tea_store =
     (\<lparr>status = 200, payload = Recipes_json [tea]\<rparr>, tea_store) \<and>
   Recipe_find (unreachable :: (unit, int jsval, int jsval recipe) model) ()
     = (Inl StoreFailure, ()) \<and>
   get_recipes (unreachable :: (unit, int jsval, int jsval recipe) model) tea_request () =
     (\<lparr>status = 500, payload = Error_json ''Internal Server Error''\<rparr>, ())"
  using list_recipes [where M = "record_store unary_ids" and s = tea_store
      and recipes = "[tea]" and s' = tea_store and req = tea_request]
    list_recipes [where M = "unreachable :: (unit, int jsval, int jsval recipe) model"
      and s = "()" and s' = "()" and err = StoreFailure and req = tea_request]
  by (simp add: record_store_sel store_find_def tea_store_def unreachable_def)

subsection \<open>Delete by id\<close>

text \<open>
  C8. Whenever the model's \<open>findByIdAndDelete\<close> finds a record, the delete handler
  answers 200 with the fixed body \<open>{ message: 'Recipe deleted' }\<close>, in which nothing of
  the deleted record appears; that call, with the path's identifier, is the only one it
  makes, and the store is in the state the call left. In the record store: for every
  well-formed identifier that resolves to a record, the answer is that one, the
  identifier resolves to nothing afterwards, and the other records are kept in order.
\<close>

theorem delete_found_is_200:
  "(Recipe_findByIdAndDelete M (param_id req) s = (Inr (Some recipe), s') \<longrightarrow>
      delete_recipe M req s =
        (\<lparr>status = 200, payload = Message_json ''Recipe deleted''\<rparr>, s') \<and>
      calls_of delete_recipe M req s = [FindByIdAndDelete (param_id req)]) \<and>
   (well_formed sch (param_id rq) \<and> stored (param_id rq) c = Some d \<longrightarrow>
      fst (delete_recipe (record_store sch) rq c) =
        \<lparr>status = 200, payload = Message_json ''Recipe deleted''\<rparr> \<and>
      stored (param_id rq) (snd (delete_recipe (record_store sch) rq c)) = None \<and>
      docs (snd (delete_recipe (record_store sch) rq c)) =
        filter (\<lambda>d. recipe_id d \<noteq> param_id rq) (docs c))"
  by (simp add: delete_recipe_def delete_recipe_calls record_store_delete stored_def
      find_filter_out)

theorem delete_found_is_200_witness:
  "well_formed unary_ids (param_id rename_request) \<and>
   stored (param_id rename_request) tea_store = Some tea \<and>
   Recipe_findByIdAndDelete (record_store unary_ids) (param_id rename_request) tea_store
     = (Inr (Some tea), drained_store) \<and>
   delete_recipe (record_store unary_ids) rename_request tea_store =
     (\<lparr>status = 200, payload = Message_json ''Recipe deleted''\<rparr>, drained_store) \<and>
   stored (param_id rename_request) drained_store = None"
proof -
  have wf: "well_formed unary_ids (param_id rename_request)"
    by (simp add: examples)
  have there: "stored (param_id rename_request) tea_store = Some tea"
    by (simp add: stored_def examples)
  have gone: "Recipe_findByIdAndDelete (record_store unary_ids) (param_id rename_request)
      tea_store = (Inr (Some tea), drained_store)"
    by (simp add: record_store_delete [OF wf there])
      (simp add: examples)
  note delete_found_is_200 [where M = "record_store unary_ids" and req = rename_request
      and s = tea_store and s' = drained_store and recipe = tea and sch = unary_ids
      and rq = rename_request and c = tea_store and d = tea]
  with wf there gone show ?thesis
    by (simp add: stored_def drained_store_def)
qed

subsection \<open>Fields of the body the handlers do not read\<close>

text \<open>
  C10. Two create requests, or two updates of the same identifier, whose bodies agree on
  title, ingredients, instructions and image, whatever else the bodies hold, make the
  same call of the model and, on the same model and state, end with the same response
  and the same store.
\<close>

theorem other_body_fields_ignored:
  assumes "req_body req1 ''title'' = req_body req2 ''title''"
    and "req_body req1 ''ingredients'' = req_body req2 ''ingredients''"
    and "req_body req1 ''instructions'' = req_body req2 ''instructions''"
    and "req_body req1 ''image'' = req_body req2 ''image''"
  shows "calls_of post_recipes M req1 s = calls_of post_recipes M req2 s \<and>
         post_recipes M req1 s = post_recipes M req2 s \<and>
         (param_id req1 = param_id req2 \<longrightarrow>
            calls_of put_recipe M req1 s = calls_of put_recipe M req2 s \<and>
            put_recipe M req1 s = put_recipe M req2 s)"
proof -
  have "body_fields req1 = body_fields req2"
    using assms by (simp add: body_fields_def)
  then show ?thesis
    by (simp add: post_recipes_def put_recipe_def post_recipes_calls put_recipe_calls)
qed

theorem other_body_fields_ignored_witness:
  "req_body rename_request ''id'' \<noteq> req_body rename_request_plain ''id'' \<and>
   req_body rename_request ''title'' = req_body rename_request_plain ''title'' \<and>
   req_body rename_request ''ingredients'' = req_body rename_request_plain ''ingredients'' \<and>
   req_body rename_request ''instructions'' = req_body rename_request_plain ''instructions'' \<and>
   req_body rename_request ''image'' = req_body rename_request_plain ''image'' \<and>
   param_id rename_request = param_id rename_request_plain \<and>
   post_recipes (record_store unary_ids) rename_request tea_store =
     post_recipes (record_store unary_ids) rename_request_plain tea_store \<and>
   put_recipe (record_store unary_ids) rename_request tea_store =
     put_recipe (record_store unary_ids) rename_request_plain tea_store \<and>
   calls_of put_recipe (record_store unary_ids) rename_request tea_store =
     calls_of put_recipe (record_store unary_ids) rename_request_plain tea_store"
  using other_body_fields_ignored [where ?req1.0 = rename_request
      and ?req2.0 = rename_request_plain and M = "record_store unary_ids" and s = tea_store]
  by (simp add: rename_request_def rename_request_plain_def)

end
